theory Spec2Isabelle
  imports Main "HOL-Library.Word" "HOL-Library.Sublist"
begin

section \<open>The store command of the IPFS proof of concept\<close>

text \<open>
  The development embeds \<^verbatim>\<open>ipfsStore\<close> of \<^verbatim>\<open>api/src/routes/ipfsStore.ts\<close>. The function
  is one \<^verbatim>\<open>try\<close> block that validates a request, hashes the decoded file, adds the
  file to IPFS, reads, advances and writes the address state, attaches a zero value
  transaction to the tangle and caches the attached bundle; its \<^verbatim>\<open>catch\<close> turns every
  thrown error into a response.

  Every call that leaves the function (the node probe, the IPFS client, the state and
  cache services, the IOTA library, the hash functions, the base64 decoder, the regular
  expression engine) is a field of the record \<open>env\<close>: the outcome the collaborator
  gives on that call, a thrown error included. The stores behind the services are the
  record \<open>world\<close>, threaded through the call; \<open>trace\<close> lists the calls in the order
  they were issued. Constructing a service object or the IOTA client makes no call and is
  not modelled. Whatever is thrown is an \<^verbatim>\<open>Error\<close> or a \<^verbatim>\<open>TypeError\<close> object, which
  \<^verbatim>\<open>toString\<close> prints as its name, a colon and its message. JavaScript numbers are exact on the integers below \<open>2 ^ 53\<close>; the
  address index lives in that range and is a \<open>nat\<close>.
\<close>

subsection \<open>Data\<close>

type_synonym bytes = "8 word list"

datatype js_error = Error string | TypeError string

fun toString :: "js_error \<Rightarrow> string" where
  "toString (Error m) = ''Error: '' @ m"
| "toString (TypeError m) = ''TypeError: '' @ m"

record IIPFSStoreRequest =
  req_name :: string
  req_description :: string
  req_size :: int
  req_modified :: string
  req_algorithm :: string
  req_hash :: string
  req_data :: string

record IIPFSStoreResponse =
  success :: bool
  message :: string
  transactionHash :: "string option"
  ipfs :: "string option"

record IConfiguration =
  node_provider :: string
  node_depth :: nat
  node_mwm :: nat
  ipfs_provider :: string
  ipfs_token :: "string option"

record IPayload =
  pl_name :: string
  pl_description :: string
  pl_size :: int
  pl_modified :: string
  pl_algorithm :: string
  pl_hash :: string
  pl_ipfs :: "string option"

record IState =
  seed :: string
  state_id :: string
  addressIndex :: nat

record ipfs_config =
  protocol :: string
  host :: string
  port :: string
  api_path :: string
  headers :: "string option"

record transfer =
  tr_address :: string
  tr_value :: nat
  tr_message :: string

record transaction =
  tx_hash :: string
  tx_bundle :: string
  tx_rest :: string

record bundle_item =
  bi_id :: string
  transactionHashes :: "string list"

record transaction_item =
  ti_id :: string
  ti_trytes :: "string option"

datatype event =
    NodeProbe string
  | IpfsAdd bytes
  | StateGet string
  | StateSet IState
  | DeriveAddress string nat
  | PrepareTransfers "transfer list"
  | SendTrytes "string list"
  | BundleCacheSet bundle_item
  | TransactionCacheSet transaction_item

text \<open>
  Modelled from the spec: \<^verbatim>\<open>StateService\<close>, \<^verbatim>\<open>BundleCacheService\<close> and
  \<^verbatim>\<open>TransactionCacheService\<close> are not among the sources. The spec gives them as a
  durable key-value store with point lookups by key, holding exactly one allocation state
  (the item \<^verbatim>\<open>default\<close>), record groups keyed by group id and record entries keyed by
  record id. A write that the service reports as failed leaves the store as it was.
\<close>

record world =
  allocationState :: "IState option"
  bundleCache :: "string \<rightharpoonup> string list"
  transactionCache :: "string \<rightharpoonup> string option"
  trace :: "event list"

record env =
  ValidationHelper_string :: "string \<Rightarrow> string \<Rightarrow> js_error option"
  ValidationHelper_number :: "int \<Rightarrow> string \<Rightarrow> js_error option"
  isNodeAvailable :: "string \<Rightarrow> js_error option"
  Buffer_from_base64 :: "string \<Rightarrow> bytes"
  sha256_hex :: "bytes \<Rightarrow> string"
  sha3_256_hex :: "bytes \<Rightarrow> string"
  regex_exec :: "string \<Rightarrow> string list option"
  ipfs_add :: "ipfs_config \<Rightarrow> bytes \<Rightarrow> js_error + string list"
  stateService_get :: "string \<Rightarrow> js_error option"
  stateService_set :: "IState \<Rightarrow> js_error option"
  generateHash :: string
  generateAddress :: "string \<Rightarrow> nat \<Rightarrow> nat \<Rightarrow> js_error + string"
  toTrytes :: "IPayload \<Rightarrow> js_error + string"
  prepareTransfers :: "string \<Rightarrow> transfer list \<Rightarrow> js_error + string list"
  sendTrytes :: "string list \<Rightarrow> nat \<Rightarrow> nat \<Rightarrow> js_error + transaction list"
  asTransactionTrytes :: "transaction list \<Rightarrow> string list"
  bundleCache_set :: "bundle_item \<Rightarrow> js_error option"
  transactionCache_set :: "transaction_item \<Rightarrow> js_error option"

type_synonym 'a io = "(js_error + 'a) \<times> world"

definition emit :: "event \<Rightarrow> world \<Rightarrow> world" where
  "emit e w = w\<lparr>trace := trace w @ [e]\<rparr>"

subsection \<open>Lines 25 to 65: validation, node probe, size checks, hash check\<close>

fun first_thrown :: "js_error option list \<Rightarrow> js_error option" where
  "first_thrown [] = None"
| "first_thrown (None # rest) = first_thrown rest"
| "first_thrown (Some e # rest) = Some e"

definition validate_request :: "env \<Rightarrow> IIPFSStoreRequest \<Rightarrow> js_error option" where
  "validate_request en request = first_thrown
     [ValidationHelper_string en (req_name request) ''name'',
      ValidationHelper_string en (req_description request) ''description'',
      ValidationHelper_number en (req_size request) ''size'',
      ValidationHelper_string en (req_modified request) ''modified'',
      ValidationHelper_string en (req_algorithm request) ''algorithm'',
      ValidationHelper_string en (req_hash request) ''hash'',
      ValidationHelper_string en (req_data request) ''data'']"

definition maxSize :: nat where
  "maxSize = 524288"

definition too_large_message :: string where
  "too_large_message =
     ''The file is too large for this demonstration, it should be less than 0.5 Mb.''"

definition empty_message :: string where
  "empty_message = ''The file must be greater than 0 bytes in length.''"

text \<open>A template literal prints an undefined value as \<^verbatim>\<open>undefined\<close>.\<close>

fun template :: "string option \<Rightarrow> string" where
  "template None = ''undefined''"
| "template (Some s) = s"

definition quoted :: "string \<Rightarrow> string" where
  "quoted s = [CHR 0x27] @ s @ [CHR 0x27]"

definition mismatch_message :: "string \<Rightarrow> string option \<Rightarrow> string" where
  "mismatch_message sent hex =
     ''The hash for the file is incorrect '' @ quoted sent
       @ '' was sent but it has been calculated as '' @ quoted (template hex)"

definition compute_hex :: "env \<Rightarrow> IIPFSStoreRequest \<Rightarrow> bytes \<Rightarrow> string option" where
  "compute_hex en request buffer =
     (if req_algorithm request = ''sha256'' then Some (sha256_hex en buffer)
      else if req_algorithm request = ''sha3'' then Some (sha3_256_hex en buffer)
      else None)"

definition check_request ::
  "env \<Rightarrow> IConfiguration \<Rightarrow> IIPFSStoreRequest \<Rightarrow> world \<Rightarrow> bytes io" where
  "check_request en config request w =
     (case validate_request en request of
        Some e \<Rightarrow> (Inl e, w)
      | None \<Rightarrow>
          (let w1 = emit (NodeProbe (node_provider config)) w in
           case isNodeAvailable en (node_provider config) of
             Some e \<Rightarrow> (Inl e, w1)
           | None \<Rightarrow>
               (let buffer = Buffer_from_base64 en (req_data request) in
                if length buffer \<ge> maxSize then (Inl (Error too_large_message), w1)
                else if length buffer = 0 then (Inl (Error empty_message), w1)
                else
                  (let hex = compute_hex en request buffer in
                   if hex \<noteq> Some (req_hash request)
                   then (Inl (Error (mismatch_message (req_hash request) hex)), w1)
                   else (Inr buffer, w1)))))"

subsection \<open>Lines 67 to 97: the IPFS client and the add\<close>

definition provider_message :: string where
  "provider_message = ''The IPFS Provider is not formatted correctly, it should be in the format https://ipfs.mydomain.com:443/api/v0/''"

definition null_length_message :: string where
  "null_length_message = ''Cannot read property '' @ quoted ''length'' @ '' of null''"

definition truthy :: "string option \<Rightarrow> bool" where
  "truthy t = (case t of None \<Rightarrow> False | Some s \<Rightarrow> s \<noteq> [])"

definition make_ipfs_config :: "IConfiguration \<Rightarrow> string list \<Rightarrow> ipfs_config" where
  "make_ipfs_config config parts =
     \<lparr>protocol = parts ! 1, host = parts ! 2, port = parts ! 3, api_path = parts ! 4,
      headers = (if truthy (ipfs_token config)
                 then Some (''Basic '' @ template (ipfs_token config)) else None)\<rparr>"

text \<open>The \<^verbatim>\<open>for await\<close> loop keeps the path of the last file the add yields.\<close>

fun last_path :: "string option \<Rightarrow> string list \<Rightarrow> string option" where
  "last_path ipfsHash [] = ipfsHash"
| "last_path ipfsHash (file # files) = last_path (Some file) files"

definition add_to_ipfs ::
  "env \<Rightarrow> IConfiguration \<Rightarrow> bytes \<Rightarrow> world \<Rightarrow> (string option) io" where
  "add_to_ipfs en config buffer w =
     (case regex_exec en (ipfs_provider config) of
        None \<Rightarrow> (Inl (TypeError null_length_message), w)
      | Some parts \<Rightarrow>
          if length parts \<noteq> 5 then (Inl (Error provider_message), w)
          else
            (let w1 = emit (IpfsAdd buffer) w in
             case ipfs_add en (make_ipfs_config config parts) buffer of
               Inl e \<Rightarrow> (Inl e, w1)
             | Inr files \<Rightarrow> (Inr (last_path None files), w1)))"

subsection \<open>Lines 99 to 112: the address state\<close>

definition next_state :: "env \<Rightarrow> IState option \<Rightarrow> IState" where
  "next_state en current =
     (case current of
        None \<Rightarrow> \<lparr>seed = generateHash en, state_id = ''default'', addressIndex = 0\<rparr>
      | Some currentState \<Rightarrow> currentState\<lparr>addressIndex := addressIndex currentState + 1\<rparr>)"

definition state_read :: "env \<Rightarrow> world \<Rightarrow> IState io" where
  "state_read en w =
     (let w1 = emit (StateGet ''default'') w in
      case stateService_get en ''default'' of
        Some e \<Rightarrow> (Inl e, w1)
      | None \<Rightarrow> (Inr (next_state en (allocationState w1)), w1))"

definition state_write :: "env \<Rightarrow> IState \<Rightarrow> world \<Rightarrow> IState io" where
  "state_write en currentState w =
     (let w1 = emit (StateSet currentState) w in
      case stateService_set en currentState of
        Some e \<Rightarrow> (Inl e, w1)
      | None \<Rightarrow> (Inr currentState, w1\<lparr>allocationState := Some currentState\<rparr>))"

definition allocate_state :: "env \<Rightarrow> world \<Rightarrow> IState io" where
  "allocate_state en w =
     (case state_read en w of
        (Inl e, w1) \<Rightarrow> (Inl e, w1)
      | (Inr currentState, w1) \<Rightarrow> state_write en currentState w1)"

subsection \<open>Lines 114 to 144: the transfer\<close>

definition tanglePayload :: "IIPFSStoreRequest \<Rightarrow> string option \<Rightarrow> IPayload" where
  "tanglePayload request ipfsHash =
     \<lparr>pl_name = req_name request, pl_description = req_description request,
      pl_size = req_size request, pl_modified = req_modified request,
      pl_algorithm = req_algorithm request, pl_hash = req_hash request,
      pl_ipfs = ipfsHash\<rparr>"

definition send_to_tangle ::
  "env \<Rightarrow> IConfiguration \<Rightarrow> IIPFSStoreRequest \<Rightarrow> string option \<Rightarrow> IState \<Rightarrow> world
     \<Rightarrow> (transaction list) io" where
  "send_to_tangle en config request ipfsHash currentState w =
     (let w1 = emit (DeriveAddress (seed currentState) (addressIndex currentState)) w in
      case generateAddress en (seed currentState) (addressIndex currentState) 2 of
        Inl e \<Rightarrow> (Inl e, w1)
      | Inr nextAddress \<Rightarrow>
          (case toTrytes en (tanglePayload request ipfsHash) of
             Inl e \<Rightarrow> (Inl e, w1)
           | Inr msg \<Rightarrow>
               (let transfers = [\<lparr>tr_address = nextAddress, tr_value = 0, tr_message = msg\<rparr>];
                    w2 = emit (PrepareTransfers transfers) w1 in
                case prepareTransfers en (replicate 81 CHR ''9'') transfers of
                  Inl e \<Rightarrow> (Inl e, w2)
                | Inr trytes \<Rightarrow>
                    (let w3 = emit (SendTrytes trytes) w2 in
                     case sendTrytes en trytes (node_depth config) (node_mwm config) of
                       Inl e \<Rightarrow> (Inl e, w3)
                     | Inr bundles \<Rightarrow> (Inr bundles, w3)))))"

subsection \<open>Lines 146 to 164: the caches and the response\<close>

definition nth_opt :: "'a list \<Rightarrow> nat \<Rightarrow> 'a option" where
  "nth_opt xs i = (if i < length xs then Some (xs ! i) else None)"

definition transaction_item_at :: "transaction list \<Rightarrow> string list \<Rightarrow> nat \<Rightarrow> transaction_item" where
  "transaction_item_at bundles attachedTrytes i =
     \<lparr>ti_id = tx_hash (bundles ! i), ti_trytes = nth_opt attachedTrytes i\<rparr>"

fun cache_transactions ::
  "env \<Rightarrow> transaction list \<Rightarrow> string list \<Rightarrow> nat list \<Rightarrow> world \<Rightarrow> unit io" where
  "cache_transactions en bundles attachedTrytes [] w = (Inr (), w)"
| "cache_transactions en bundles attachedTrytes (i # rest) w =
     (let item = transaction_item_at bundles attachedTrytes i;
          w1 = emit (TransactionCacheSet item) w in
      case transactionCache_set en item of
        Some e \<Rightarrow> (Inl e, w1)
      | None \<Rightarrow>
          cache_transactions en bundles attachedTrytes rest
            (w1\<lparr>transactionCache := (transactionCache w1)(ti_id item \<mapsto> ti_trytes item)\<rparr>))"

definition undefined_bundle_message :: string where
  "undefined_bundle_message = ''Cannot read property '' @ quoted ''bundle'' @ '' of undefined''"

definition cache_and_respond ::
  "env \<Rightarrow> transaction list \<Rightarrow> string option \<Rightarrow> world \<Rightarrow> IIPFSStoreResponse io" where
  "cache_and_respond en bundles ipfsHash w =
     (let txHashes = map tx_hash bundles;
          attachedTrytes = asTransactionTrytes en bundles in
      case bundles of
        [] \<Rightarrow> (Inl (TypeError undefined_bundle_message), w)
      | first # others \<Rightarrow>
          (let item = \<lparr>bi_id = tx_bundle first, transactionHashes = txHashes\<rparr>;
               w1 = emit (BundleCacheSet item) w in
           case bundleCache_set en item of
             Some e \<Rightarrow> (Inl e, w1)
           | None \<Rightarrow>
               (case cache_transactions en bundles attachedTrytes [0..<length bundles]
                       (w1\<lparr>bundleCache := (bundleCache w1)(bi_id item \<mapsto> transactionHashes item)\<rparr>) of
                  (Inl e, w2) \<Rightarrow> (Inl e, w2)
                | (Inr u, w2) \<Rightarrow>
                    (Inr \<lparr>success = True, message = ''OK'',
                          transactionHash = Some (tx_hash first), ipfs = ipfsHash\<rparr>, w2))))"

subsection \<open>The whole command\<close>

definition ipfsStore_try ::
  "env \<Rightarrow> IConfiguration \<Rightarrow> IIPFSStoreRequest \<Rightarrow> world \<Rightarrow> IIPFSStoreResponse io" where
  "ipfsStore_try en config request w =
     (case check_request en config request w of
        (Inl e, w1) \<Rightarrow> (Inl e, w1)
      | (Inr buffer, w1) \<Rightarrow>
          (case add_to_ipfs en config buffer w1 of
             (Inl e, w2) \<Rightarrow> (Inl e, w2)
           | (Inr ipfsHash, w2) \<Rightarrow>
               (case allocate_state en w2 of
                  (Inl e, w3) \<Rightarrow> (Inl e, w3)
                | (Inr currentState, w3) \<Rightarrow>
                    (case send_to_tangle en config request ipfsHash currentState w3 of
                       (Inl e, w4) \<Rightarrow> (Inl e, w4)
                     | (Inr bundles, w4) \<Rightarrow> cache_and_respond en bundles ipfsHash w4))))"

definition ipfsStore ::
  "env \<Rightarrow> IConfiguration \<Rightarrow> IIPFSStoreRequest \<Rightarrow> world \<Rightarrow> IIPFSStoreResponse \<times> world" where
  "ipfsStore en config request w =
     (case ipfsStore_try en config request w of
        (Inl err, w') \<Rightarrow>
          (\<lparr>success = False, message = toString err, transactionHash = None, ipfs = None\<rparr>, w')
      | (Inr response, w') \<Rightarrow> (response, w'))"

subsection \<open>Traces\<close>

text \<open>The events a call added to the trace.\<close>

definition new_events :: "world \<Rightarrow> world \<Rightarrow> event list" where
  "new_events w w' = drop (length (trace w)) (trace w')"





subsection \<open>Calls one after another\<close>





subsection \<open>Calls that overlap\<close>




subsection \<open>Comparing hexadecimal digests without regard to case\<close>

definition lower_hex :: "char \<Rightarrow> char" where
  "lower_hex c =
     (if c = CHR ''A'' then CHR ''a'' else if c = CHR ''B'' then CHR ''b''
      else if c = CHR ''C'' then CHR ''c'' else if c = CHR ''D'' then CHR ''d''
      else if c = CHR ''E'' then CHR ''e'' else if c = CHR ''F'' then CHR ''f'' else c)"

definition same_hex :: "string \<Rightarrow> string \<Rightarrow> bool" where
  "same_hex a b = (map lower_hex a = map lower_hex b)"

subsection \<open>A sample deployment\<close>

text \<open>
  Collaborators that answer every call: the validation helper rejects blank strings, the
  decoder knows the base64 text of the five bytes \<open>hello\<close> and decodes anything else
  to no bytes (as it does a lone padding character), and the digests are those of these
  five bytes and of the empty input.
\<close>

definition hello :: bytes where
  "hello = [104, 101, 108, 108, 111]"

definition sha256_hello :: string where
  "sha256_hello = ''2cf24dba5fb0a30e26e83b2ac5b9e29e1b161e5c1fa7425e73043362938b9824''"

definition sha256_empty :: string where
  "sha256_empty = ''e3b0c44298fc1c149afbf4c8996fb92427ae41e4649b934ca495991b7852b855''"

definition sample_transaction :: transaction where
  "sample_transaction = \<lparr>tx_hash = ''TXHASH'', tx_bundle = ''BUNDLE'', tx_rest = ''TRYTES''\<rparr>"

definition sample_env :: env where
  "sample_env =
     \<lparr>ValidationHelper_string =
        (\<lambda>v n. if filter (\<lambda>c. c \<noteq> CHR '' '') v = []
               then Some (Error (''The parameter '' @ quoted n @ '' has an invalid value.''))
               else None),
      ValidationHelper_number = (\<lambda>v n. None),
      isNodeAvailable = (\<lambda>provider. None),
      Buffer_from_base64 = (\<lambda>s. if s = ''aGVsbG8='' then hello else []),
      sha256_hex = (\<lambda>b. if b = hello then sha256_hello else sha256_empty),
      sha3_256_hex =
        (\<lambda>b. if b = hello
              then ''3338be694f50c5f338814986cdf0686453a888b84f424d792af4b9202398f392''
              else ''a7ffc6f8bf1ed76651c14756a061d662f580ff4de43b49fa82d80a4b80f8434a''),
      regex_exec =
        (\<lambda>s. if s = ''https://ipfs.mydomain.com:443/api/v0/''
              then Some [s, ''https'', ''ipfs.mydomain.com'', ''443'', ''/api/v0/'']
              else None),
      ipfs_add = (\<lambda>cfg b. Inr [''QmHello'']),
      stateService_get = (\<lambda>k. None),
      stateService_set = (\<lambda>st. None),
      generateHash = ''SEED'',
      generateAddress = (\<lambda>s i security. Inr ''ADDRESS''),
      toTrytes = (\<lambda>p. Inr ''PAYLOAD''),
      prepareTransfers = (\<lambda>s transfers. Inr [''PREPARED'']),
      sendTrytes = (\<lambda>trytes depth mwm. Inr [sample_transaction]),
      asTransactionTrytes = map tx_rest,
      bundleCache_set = (\<lambda>item. None),
      transactionCache_set = (\<lambda>item. None)\<rparr>"

definition sample_config :: IConfiguration where
  "sample_config =
     \<lparr>node_provider = ''https://nodes.example.org:443'', node_depth = 3, node_mwm = 9,
      ipfs_provider = ''https://ipfs.mydomain.com:443/api/v0/'', ipfs_token = None\<rparr>"

definition sample_request :: IIPFSStoreRequest where
  "sample_request =
     \<lparr>req_name = ''a.txt'', req_description = ''a file'', req_size = 5,
      req_modified = ''2020-01-01T00:00:00.000Z'', req_algorithm = ''sha256'',
      req_hash = sha256_hello, req_data = ''aGVsbG8=''\<rparr>"

definition fresh_world :: world where
  "fresh_world =
     \<lparr>allocationState = None, bundleCache = Map.empty, transactionCache = Map.empty,
      trace = []\<rparr>"


text \<open>
  A request whose data is a lone padding character (it decodes to no bytes), one whose
  declared hash is the digest of its file in capitals, collaborators whose decoder
  returns a file of exactly the size limit, and collaborators whose node refuses the
  trytes.
\<close>

definition padding_request :: IIPFSStoreRequest where
  "padding_request = sample_request\<lparr>req_size := 0, req_data := ''=''\<rparr>"

definition upper_request :: IIPFSStoreRequest where
  "upper_request = sample_request\<lparr>req_hash :=
     ''2CF24DBA5FB0A30E26E83B2AC5B9E29E1B161E5C1FA7425E73043362938B9824''\<rparr>"

definition large_env :: env where
  "large_env = sample_env\<lparr>Buffer_from_base64 := \<lambda>s. replicate 524288 0\<rparr>"


text \<open>The calls of the sample deployment up to the transfer, for the state it wrote.\<close>

definition sample_sent :: "IState \<Rightarrow> event list" where
  "sample_sent cs =
     [NodeProbe (node_provider sample_config), IpfsAdd hello, StateGet ''default'',
      StateSet cs, DeriveAddress (seed cs) (addressIndex cs),
      PrepareTransfers [\<lparr>tr_address = ''ADDRESS'', tr_value = 0, tr_message = ''PAYLOAD''\<rparr>],
      SendTrytes [''PREPARED'']]"

section \<open>Properties\<close>

subsection \<open>The checks of lines 25 to 65\<close>


lemma check_request_world:
  "check_request en config request w = (res, w1) \<Longrightarrow>
     w1 = w \<or> w1 = emit (NodeProbe (node_provider config)) w"
  by (auto simp: check_request_def Let_def split: option.splits if_splits)

lemma check_request_Inr:
  "check_request en config request w = (Inr buffer, w1) \<Longrightarrow>
     validate_request en request = None \<and> isNodeAvailable en (node_provider config) = None \<and>
     buffer = Buffer_from_base64 en (req_data request) \<and> 0 < length buffer \<and>
     length buffer < maxSize \<and> compute_hex en request buffer = Some (req_hash request) \<and>
     w1 = emit (NodeProbe (node_provider config)) w"
  by (auto simp: check_request_def Let_def split: option.splits if_splits)

lemma check_request_Inl:
  "check_request en config request w = (Inl e, w1) \<Longrightarrow>
     ipfsStore en config request w =
       (\<lparr>success = False, message = toString e, transactionHash = None, ipfs = None\<rparr>, w1)"
  by (simp add: ipfsStore_def ipfsStore_try_def)

lemma check_request_reached:
  "validate_request en request = None \<Longrightarrow> isNodeAvailable en (node_provider config) = None \<Longrightarrow>
   check_request en config request w =
     (let buffer = Buffer_from_base64 en (req_data request);
          w1 = emit (NodeProbe (node_provider config)) w in
      if length buffer \<ge> maxSize then (Inl (Error too_large_message), w1)
      else if length buffer = 0 then (Inl (Error empty_message), w1)
      else if compute_hex en request buffer \<noteq> Some (req_hash request)
           then (Inl (Error (mismatch_message (req_hash request) (compute_hex en request buffer))), w1)
           else (Inr buffer, w1))"
  by (simp add: check_request_def Let_def)

lemma check_request_rejects:
  assumes "length (Buffer_from_base64 en (req_data request)) = 0
           \<or> maxSize \<le> length (Buffer_from_base64 en (req_data request))
           \<or> compute_hex en request (Buffer_from_base64 en (req_data request)) \<noteq> Some (req_hash request)"
  shows "\<exists>e w1. check_request en config request w = (Inl e, w1)"
proof (cases "check_request en config request w")
  case (Pair res w1)
  show ?thesis
  proof (cases res)
    case (Inl e)
    with Pair show ?thesis by simp
  next
    case (Inr buffer)
    with Pair check_request_Inr[of en config request w buffer w1] assms show ?thesis by auto
  qed
qed

lemma ipfsStore_rejected:
  assumes "validate_request en request = None"
    and "isNodeAvailable en (node_provider config) = None"
    and "Buffer_from_base64 en (req_data request) = buffer"
  shows "ipfsStore en config request w =
     (if maxSize \<le> length buffer
      then (\<lparr>success = False, message = ''Error: '' @ too_large_message,
             transactionHash = None, ipfs = None\<rparr>, emit (NodeProbe (node_provider config)) w)
      else if length buffer = 0
      then (\<lparr>success = False, message = ''Error: '' @ empty_message,
             transactionHash = None, ipfs = None\<rparr>, emit (NodeProbe (node_provider config)) w)
      else if compute_hex en request buffer \<noteq> Some (req_hash request)
      then (\<lparr>success = False,
             message = ''Error: '' @ mismatch_message (req_hash request)
                                       (compute_hex en request buffer),
             transactionHash = None, ipfs = None\<rparr>, emit (NodeProbe (node_provider config)) w)
      else ipfsStore en config request w)"
  using assms by (simp add: ipfsStore_def ipfsStore_try_def check_request_reached Let_def)

lemma new_events_emit: "new_events w (emit e w) = [e]"
  by (simp add: new_events_def emit_def)

lemma sample_validates:
  "validate_request sample_env sample_request = None"
  "validate_request sample_env padding_request = None"
  "validate_request sample_env upper_request = None"
  "validate_request sample_env (sample_request\<lparr>req_algorithm := ''md5''\<rparr>) = None"
  by (simp_all add: validate_request_def sample_env_def sample_request_def padding_request_def
        upper_request_def sha256_hello_def)

lemma sample_node:
  "isNodeAvailable sample_env (node_provider sample_config) = None"
  "node_provider sample_config = ''https://nodes.example.org:443''"
  by (simp_all add: sample_env_def sample_config_def)

lemma sample_decodes:
  "Buffer_from_base64 sample_env (req_data sample_request) = hello"
  "Buffer_from_base64 sample_env (req_data padding_request) = []"
  "Buffer_from_base64 sample_env (req_data upper_request) = hello"
  "Buffer_from_base64 sample_env (req_data (sample_request\<lparr>req_algorithm := ''md5''\<rparr>)) = hello"
  by (simp_all add: sample_env_def sample_request_def padding_request_def upper_request_def)

lemma hello_length: "length hello = 5" "\<not> maxSize \<le> 5" "0 < maxSize"
  by (simp_all add: hello_def maxSize_def)

text \<open>
  Claim C7. A request whose decoded buffer has no bytes, or has at least \<open>maxSize\<close>
  (0.5 * 1048576 = 524288) bytes, is answered with \<open>success = False\<close>; nothing but the
  node probe has been called, so no trytes were sent to the tangle. When the field
  validation and the node probe pass, the message is the one of the size check that fired
  (the size limit is tested first).
\<close>

theorem empty_or_oversized_rejected:
  assumes "length (Buffer_from_base64 en (req_data request)) = 0
           \<or> maxSize \<le> length (Buffer_from_base64 en (req_data request))"
  shows "\<not> success (fst (ipfsStore en config request w))
       \<and> (snd (ipfsStore en config request w) = w
          \<or> snd (ipfsStore en config request w) = emit (NodeProbe (node_provider config)) w)
       \<and> (\<forall>trytes. SendTrytes trytes \<notin> set (new_events w (snd (ipfsStore en config request w))))
       \<and> (validate_request en request = None \<and> isNodeAvailable en (node_provider config) = None
          \<longrightarrow> message (fst (ipfsStore en config request w)) =
                (if maxSize \<le> length (Buffer_from_base64 en (req_data request))
                 then ''Error: '' @ too_large_message else ''Error: '' @ empty_message))"
proof -
  from assms obtain e w1 where c: "check_request en config request w = (Inl e, w1)"
    using check_request_rejects[of en request config w] by blast
  have r: "ipfsStore en config request w =
       (\<lparr>success = False, message = toString e, transactionHash = None, ipfs = None\<rparr>, w1)"
    using c by (rule check_request_Inl)
  have w: "w1 = w \<or> w1 = emit (NodeProbe (node_provider config)) w"
    using c by (rule check_request_world)
  have m: "validate_request en request = None \<and> isNodeAvailable en (node_provider config) = None
          \<longrightarrow> toString e =
                (if maxSize \<le> length (Buffer_from_base64 en (req_data request))
                 then ''Error: '' @ too_large_message else ''Error: '' @ empty_message)"
    using c assms by (auto simp: check_request_reached Let_def split: if_splits)
  from w have n: "\<forall>trytes. SendTrytes trytes \<notin> set (new_events w w1)"
    by (auto simp: new_events_def emit_def)
  show ?thesis using r w m n by simp
qed


text \<open>
  The sample request with a lone padding character as data is rejected as empty, and a
  decoder that returns 524288 bytes makes the sample request too large.
\<close>

theorem empty_or_oversized_rejected_witness:
  "length (Buffer_from_base64 sample_env (req_data padding_request)) = 0
   \<and> \<not> success (fst (ipfsStore sample_env sample_config padding_request fresh_world))
   \<and> message (fst (ipfsStore sample_env sample_config padding_request fresh_world))
       = ''Error: '' @ empty_message
   \<and> maxSize \<le> length (Buffer_from_base64 large_env (req_data sample_request))
   \<and> \<not> success (fst (ipfsStore large_env sample_config sample_request fresh_world))
   \<and> message (fst (ipfsStore large_env sample_config sample_request fresh_world))
       = ''Error: '' @ too_large_message"
proof -
  have e: "length (Buffer_from_base64 sample_env (req_data padding_request)) = 0"
    by (simp add: sample_env_def padding_request_def sample_request_def)
  have l: "maxSize \<le> length (Buffer_from_base64 large_env (req_data sample_request))"
    by (simp add: large_env_def sample_env_def maxSize_def)
  have v: "validate_request sample_env padding_request = None"
    by (simp add: validate_request_def sample_env_def padding_request_def sample_request_def
          sha256_hello_def)
  have v': "validate_request large_env sample_request = None"
    by (simp add: validate_request_def large_env_def sample_env_def sample_request_def
          sha256_hello_def)
  have n: "isNodeAvailable sample_env (node_provider sample_config) = None"
    "isNodeAvailable large_env (node_provider sample_config) = None"
    by (simp_all add: large_env_def sample_env_def)
  show ?thesis
    using empty_or_oversized_rejected[of sample_env padding_request sample_config fresh_world]
      empty_or_oversized_rejected[of large_env sample_request sample_config fresh_world] e l v v' n
    by (simp add: maxSize_def)
qed

text \<open>
  Claim C10. When the algorithm field is neither \<^verbatim>\<open>sha256\<close> nor \<^verbatim>\<open>sha3\<close> no digest is
  computed; the declared hash is a string, so it never equals the absent digest, and the
  request is answered with \<open>success = False\<close> with at most the node probe called:
  nothing is added to IPFS, the address state is not touched and nothing is sent to the
  tangle.
\<close>

theorem unknown_algorithm_rejected:
  assumes "req_algorithm request \<noteq> ''sha256''" and "req_algorithm request \<noteq> ''sha3''"
  shows "compute_hex en request buffer = None
       \<and> \<not> success (fst (ipfsStore en config request w))
       \<and> (snd (ipfsStore en config request w) = w
          \<or> snd (ipfsStore en config request w) = emit (NodeProbe (node_provider config)) w)
       \<and> (\<forall>e \<in> set (new_events w (snd (ipfsStore en config request w))).
            e = NodeProbe (node_provider config))"
proof -
  have h: "\<And>b. compute_hex en request b = None"
    using assms by (simp add: compute_hex_def)
  then obtain e w1 where c: "check_request en config request w = (Inl e, w1)"
    using check_request_rejects[of en request config w] by auto
  have w: "w1 = w \<or> w1 = emit (NodeProbe (node_provider config)) w"
    using c by (rule check_request_world)
  then have n: "\<forall>e \<in> set (new_events w w1). e = NodeProbe (node_provider config)"
    by (auto simp: new_events_def emit_def)
  show ?thesis using h w n check_request_Inl[OF c] by simp
qed

text \<open>
  The sample request with algorithm \<^verbatim>\<open>md5\<close>.
\<close>

theorem unknown_algorithm_rejected_witness:
  "req_algorithm (sample_request\<lparr>req_algorithm := ''md5''\<rparr>) \<noteq> ''sha256''
   \<and> req_algorithm (sample_request\<lparr>req_algorithm := ''md5''\<rparr>) \<noteq> ''sha3''
   \<and> compute_hex sample_env (sample_request\<lparr>req_algorithm := ''md5''\<rparr>) hello = None
   \<and> \<not> success (fst (ipfsStore sample_env sample_config
          (sample_request\<lparr>req_algorithm := ''md5''\<rparr>) fresh_world))
   \<and> new_events fresh_world (snd (ipfsStore sample_env sample_config
          (sample_request\<lparr>req_algorithm := ''md5''\<rparr>) fresh_world))
       = [NodeProbe (node_provider sample_config)]"
proof -
  let ?r = "sample_request\<lparr>req_algorithm := ''md5''\<rparr>"
  have a: "req_algorithm ?r \<noteq> ''sha256''" "req_algorithm ?r \<noteq> ''sha3''"
    by simp_all
  note t = unknown_algorithm_rejected[OF a, of sample_env hello sample_config fresh_world]
  have "snd (ipfsStore sample_env sample_config ?r fresh_world)
          = emit (NodeProbe (node_provider sample_config)) fresh_world"
    by (subst ipfsStore_rejected[OF sample_validates(4) sample_node(1) sample_decodes(4)])
       (simp add: hello_length conjunct1[OF t])
  then show ?thesis using t a by (simp add: new_events_emit)
qed

text \<open>
  Claim C1 as stated fails on a request that is rejected before the hash is compared. The
  data of \<open>padding_request\<close> decodes to no bytes and its declared hash is not the digest
  of the empty input; the size check of line 46 throws first, and the message does not
  contain the calculated hash.
\<close>

theorem hash_mismatch_message_counterexample:
  "compute_hex sample_env padding_request
       (Buffer_from_base64 sample_env (req_data padding_request))
     \<noteq> Some (req_hash padding_request)
   \<and> message (fst (ipfsStore sample_env sample_config padding_request fresh_world))
       = ''Error: The file must be greater than 0 bytes in length.''
   \<and> \<not> sublist
         (template (compute_hex sample_env padding_request
            (Buffer_from_base64 sample_env (req_data padding_request))))
         (message (fst (ipfsStore sample_env sample_config padding_request fresh_world)))"
proof -
  have h: "compute_hex sample_env padding_request [] = Some sha256_empty"
    by (simp add: compute_hex_def sample_env_def padding_request_def sample_request_def hello_def)
  have d: "sha256_empty \<noteq> req_hash padding_request"
    by (simp add: sha256_empty_def padding_request_def sample_request_def sha256_hello_def)
  have m: "message (fst (ipfsStore sample_env sample_config padding_request fresh_world))
             = ''Error: '' @ empty_message"
    by (subst ipfsStore_rejected[OF sample_validates(2) sample_node(1) sample_decodes(2)])
       (simp add: maxSize_def)
  have s: "\<not> sublist sha256_empty (''Error: '' @ empty_message)"
    by (simp add: sha256_empty_def empty_message_def sublist_code)
  show ?thesis
    unfolding m sample_decodes h using d s by (simp add: empty_message_def)
qed

text \<open>
  Claim C1, amended. A request whose recomputed hash differs from the declared hash is
  answered with \<open>success = False\<close> and at most the node probe has been called: no add to
  IPFS, no read or write of the address state, no transfer. When the request passes the
  field validation, the node probe and the two size checks, the message is the hash
  mismatch message and contains the calculated hash.
\<close>

theorem hash_mismatch_rejected:
  assumes "compute_hex en request (Buffer_from_base64 en (req_data request))
             \<noteq> Some (req_hash request)"
  shows "\<not> success (fst (ipfsStore en config request w))
       \<and> (snd (ipfsStore en config request w) = w
          \<or> snd (ipfsStore en config request w) = emit (NodeProbe (node_provider config)) w)
       \<and> (\<forall>e \<in> set (new_events w (snd (ipfsStore en config request w))).
            e = NodeProbe (node_provider config))
       \<and> allocationState (snd (ipfsStore en config request w)) = allocationState w
       \<and> (validate_request en request = None
          \<and> isNodeAvailable en (node_provider config) = None
          \<and> 0 < length (Buffer_from_base64 en (req_data request))
          \<and> length (Buffer_from_base64 en (req_data request)) < maxSize
          \<longrightarrow> message (fst (ipfsStore en config request w)) =
                 ''Error: '' @ mismatch_message (req_hash request)
                    (compute_hex en request (Buffer_from_base64 en (req_data request)))
              \<and> sublist
                  (template (compute_hex en request (Buffer_from_base64 en (req_data request))))
                  (message (fst (ipfsStore en config request w))))"
proof -
  let ?hex = "compute_hex en request (Buffer_from_base64 en (req_data request))"
  obtain e w1 where c: "check_request en config request w = (Inl e, w1)"
    using assms check_request_rejects[of en request config w] by auto
  have w: "w1 = w \<or> w1 = emit (NodeProbe (node_provider config)) w"
    using c by (rule check_request_world)
  then have n: "\<forall>e \<in> set (new_events w w1). e = NodeProbe (node_provider config)"
    by (auto simp: new_events_def emit_def)
  from w have a: "allocationState w1 = allocationState w"
    by (auto simp: emit_def)
  have m: "validate_request en request = None
          \<and> isNodeAvailable en (node_provider config) = None
          \<and> 0 < length (Buffer_from_base64 en (req_data request))
          \<and> length (Buffer_from_base64 en (req_data request)) < maxSize
          \<longrightarrow> toString e = ''Error: '' @ mismatch_message (req_hash request) ?hex"
    using c assms by (auto simp: check_request_reached Let_def split: if_splits)
  have s: "sublist (template ?hex) (''Error: '' @ mismatch_message (req_hash request) ?hex)"
  proof -
    have "''Error: '' @ mismatch_message (req_hash request) ?hex
          = (''Error: '' @ ''The hash for the file is incorrect '' @ quoted (req_hash request)
               @ '' was sent but it has been calculated as '' @ [CHR 0x27])
            @ template ?hex @ [CHR 0x27]"
      by (simp add: mismatch_message_def quoted_def)
    then show ?thesis unfolding sublist_def by blast
  qed
  show ?thesis using w n a m s check_request_Inl[OF c] by auto
qed

text \<open>
  The sample request with its declared hash in capitals passes every earlier check and is
  rejected with the calculated digest in the message.
\<close>

theorem hash_mismatch_rejected_witness:
  "compute_hex sample_env upper_request (Buffer_from_base64 sample_env (req_data upper_request))
     \<noteq> Some (req_hash upper_request)
   \<and> validate_request sample_env upper_request = None
   \<and> isNodeAvailable sample_env (node_provider sample_config) = None
   \<and> 0 < length (Buffer_from_base64 sample_env (req_data upper_request))
   \<and> length (Buffer_from_base64 sample_env (req_data upper_request)) < maxSize
   \<and> \<not> success (fst (ipfsStore sample_env sample_config upper_request fresh_world))
   \<and> sublist sha256_hello
        (message (fst (ipfsStore sample_env sample_config upper_request fresh_world)))"
proof -
  have b: "Buffer_from_base64 sample_env (req_data upper_request) = hello"
    by (simp add: sample_env_def upper_request_def sample_request_def)
  have h: "compute_hex sample_env upper_request hello = Some sha256_hello"
    by (simp add: compute_hex_def sample_env_def upper_request_def sample_request_def)
  have d: "Some sha256_hello \<noteq> Some (req_hash upper_request)"
    by (simp add: sha256_hello_def upper_request_def)
  have v: "validate_request sample_env upper_request = None"
    by (simp add: validate_request_def sample_env_def upper_request_def sample_request_def)
  have n: "isNodeAvailable sample_env (node_provider sample_config) = None"
    by (simp add: sample_env_def)
  have l: "0 < length hello \<and> length hello < maxSize"
    by (simp add: hello_def maxSize_def)
  note t = hash_mismatch_rejected[of sample_env upper_request sample_config fresh_world, unfolded b h, OF d]
  from t v n l have u: "\<not> success (fst (ipfsStore sample_env sample_config upper_request fresh_world))
     \<and> sublist (template (Some sha256_hello))
         (message (fst (ipfsStore sample_env sample_config upper_request fresh_world)))"
    by blast
  show ?thesis using u b h d v n l by simp
qed















subsection \<open>The sample deployment, run\<close>

lemma sample_check:
  "check_request sample_env sample_config sample_request w =
     (Inr hello, emit (NodeProbe (node_provider sample_config)) w)"
proof -
  have "compute_hex sample_env sample_request hello = Some (req_hash sample_request)"
    by (simp add: compute_hex_def sample_env_def sample_request_def)
  then show ?thesis
    by (simp add: check_request_reached sample_validates sample_node(1) sample_decodes
          hello_length Let_def)
qed

lemma sample_add:
  "ipfs_add en = (\<lambda>cfg b. Inr [''QmHello'']) \<Longrightarrow> regex_exec en = regex_exec sample_env \<Longrightarrow>
   add_to_ipfs en sample_config hello w = (Inr (Some ''QmHello''), emit (IpfsAdd hello) w)"
  by (simp add: add_to_ipfs_def sample_env_def sample_config_def Let_def)

lemma sample_allocate:
  "stateService_get en = (\<lambda>k. None) \<Longrightarrow> stateService_set en = (\<lambda>st. None) \<Longrightarrow>
   allocate_state en w =
     (Inr (next_state en (allocationState w)),
      w\<lparr>allocationState := Some (next_state en (allocationState w)),
        trace := trace w @ [StateGet ''default'', StateSet (next_state en (allocationState w))]\<rparr>)"
  by (simp add: allocate_state_def state_read_def state_write_def emit_def Let_def)

lemma sample_send:
  "send_to_tangle sample_env config request ipfsHash currentState w =
     (Inr [sample_transaction],
      w\<lparr>trace := trace w @
         [DeriveAddress (seed currentState) (addressIndex currentState),
          PrepareTransfers [\<lparr>tr_address = ''ADDRESS'', tr_value = 0, tr_message = ''PAYLOAD''\<rparr>],
          SendTrytes [''PREPARED'']]\<rparr>)"
  by (simp add: send_to_tangle_def sample_env_def emit_def Let_def)

lemma sample_cache:
  "cache_and_respond sample_env [sample_transaction] ipfsHash w =
     (Inr \<lparr>success = True, message = ''OK'', transactionHash = Some ''TXHASH'',
           ipfs = ipfsHash\<rparr>,
      w\<lparr>bundleCache := (bundleCache w)(''BUNDLE'' \<mapsto> [''TXHASH'']),
        transactionCache := (transactionCache w)(''TXHASH'' \<mapsto> Some ''TRYTES''),
        trace := trace w @
          [BundleCacheSet \<lparr>bi_id = ''BUNDLE'', transactionHashes = [''TXHASH'']\<rparr>,
           TransactionCacheSet \<lparr>ti_id = ''TXHASH'', ti_trytes = Some ''TRYTES''\<rparr>]\<rparr>)"
  by (simp add: cache_and_respond_def sample_env_def sample_transaction_def emit_def Let_def
        transaction_item_at_def nth_opt_def)

lemma sample_env_fields:
  "ipfs_add sample_env = (\<lambda>cfg b. Inr [''QmHello''])"
  "stateService_get sample_env = (\<lambda>k. None)"
  "stateService_set sample_env = (\<lambda>st. None)"
  "generateHash sample_env = ''SEED''"
  by (simp_all add: sample_env_def)

lemma sample_run:
  "ipfsStore sample_env sample_config sample_request w =
     (\<lparr>success = True, message = ''OK'', transactionHash = Some ''TXHASH'',
       ipfs = Some ''QmHello''\<rparr>,
      w\<lparr>allocationState := Some (next_state sample_env (allocationState w)),
        bundleCache := (bundleCache w)(''BUNDLE'' \<mapsto> [''TXHASH'']),
        transactionCache := (transactionCache w)(''TXHASH'' \<mapsto> Some ''TRYTES''),
        trace := trace w @ sample_sent (next_state sample_env (allocationState w)) @
          [BundleCacheSet \<lparr>bi_id = ''BUNDLE'', transactionHashes = [''TXHASH'']\<rparr>,
           TransactionCacheSet \<lparr>ti_id = ''TXHASH'', ti_trytes = Some ''TRYTES''\<rparr>]\<rparr>)"
  by (simp add: ipfsStore_def ipfsStore_try_def sample_check sample_add sample_allocate
        sample_send sample_cache sample_env_fields emit_def sample_sent_def)



subsection \<open>The order of the size checks and the calls\<close>




subsection \<open>The comparison of the hashes\<close>

text \<open>
  Claim C5 as stated fails: line 62 compares with \<^verbatim>\<open>!==\<close>, and nothing changes the case
  of either string. The declared hash of \<open>upper_request\<close> is the digest of its file in
  capitals; the request is rejected with the hash mismatch message.
\<close>

theorem uppercase_hash_counterexample:
  "compute_hex sample_env upper_request
       (Buffer_from_base64 sample_env (req_data upper_request)) = Some sha256_hello
   \<and> same_hex (req_hash upper_request) sha256_hello
   \<and> \<not> success (fst (ipfsStore sample_env sample_config upper_request fresh_world))
   \<and> message (fst (ipfsStore sample_env sample_config upper_request fresh_world))
       = ''Error: '' @ mismatch_message (req_hash upper_request) (Some sha256_hello)"
proof -
  have h: "compute_hex sample_env upper_request hello = Some sha256_hello"
    by (simp add: compute_hex_def sample_env_def upper_request_def sample_request_def)
  have d: "sha256_hello \<noteq> req_hash upper_request"
    by (simp add: sha256_hello_def upper_request_def)
  have s: "same_hex (req_hash upper_request) sha256_hello"
    by (simp add: same_hex_def lower_hex_def sha256_hello_def upper_request_def)
  show ?thesis
    by (subst (1 2) ipfsStore_rejected[OF sample_validates(3) sample_node(1) sample_decodes(3)])
       (simp add: sample_decodes h d s hello_length)
qed

text \<open>
  Claim C5, amended. The comparison is exact, character by character. A request that
  passes the earlier checks is let through when the declared hash is equal to the
  recomputed digest, and a declared hash that differs from the digest, be it only in the
  case of its letters, is rejected.
\<close>

theorem hash_compared_exactly:
  assumes "compute_hex en request (Buffer_from_base64 en (req_data request)) = Some digest"
    and "validate_request en request = None"
    and "isNodeAvailable en (node_provider config) = None"
    and "0 < length (Buffer_from_base64 en (req_data request))"
    and "length (Buffer_from_base64 en (req_data request)) < maxSize"
  shows "(req_hash request = digest \<longrightarrow>
            check_request en config request w =
              (Inr (Buffer_from_base64 en (req_data request)),
               emit (NodeProbe (node_provider config)) w))
       \<and> (req_hash request \<noteq> digest \<longrightarrow>
            ipfsStore en config request w =
              (\<lparr>success = False,
                message = ''Error: '' @ mismatch_message (req_hash request) (Some digest),
                transactionHash = None, ipfs = None\<rparr>,
               emit (NodeProbe (node_provider config)) w))
       \<and> (same_hex (req_hash request) digest \<and> req_hash request \<noteq> digest \<longrightarrow>
            \<not> success (fst (ipfsStore en config request w)))"
proof -
  have a: "req_hash request = digest \<longrightarrow>
            check_request en config request w =
              (Inr (Buffer_from_base64 en (req_data request)),
               emit (NodeProbe (node_provider config)) w)"
    using assms by (auto simp: check_request_reached Let_def)
  have b: "req_hash request \<noteq> digest \<longrightarrow>
            ipfsStore en config request w =
              (\<lparr>success = False,
                message = ''Error: '' @ mismatch_message (req_hash request) (Some digest),
                transactionHash = None, ipfs = None\<rparr>,
               emit (NodeProbe (node_provider config)) w)"
  proof
    assume n: "req_hash request \<noteq> digest"
    show "ipfsStore en config request w =
              (\<lparr>success = False,
                message = ''Error: '' @ mismatch_message (req_hash request) (Some digest),
                transactionHash = None, ipfs = None\<rparr>,
               emit (NodeProbe (node_provider config)) w)"
      by (subst ipfsStore_rejected[OF assms(2,3) refl]) (use assms n in auto)
  qed
  from a b show ?thesis by simp
qed

text \<open>The sample request is let through; the same request in capitals is rejected.\<close>

theorem hash_compared_exactly_witness:
  "compute_hex sample_env sample_request
       (Buffer_from_base64 sample_env (req_data sample_request)) = Some sha256_hello
   \<and> req_hash sample_request = sha256_hello
   \<and> check_request sample_env sample_config sample_request fresh_world =
       (Inr (Buffer_from_base64 sample_env (req_data sample_request)),
        emit (NodeProbe (node_provider sample_config)) fresh_world)
   \<and> compute_hex sample_env upper_request
       (Buffer_from_base64 sample_env (req_data upper_request)) = Some sha256_hello
   \<and> same_hex (req_hash upper_request) sha256_hello
   \<and> req_hash upper_request \<noteq> sha256_hello
   \<and> \<not> success (fst (ipfsStore sample_env sample_config upper_request fresh_world))"
proof -
  have h: "compute_hex sample_env sample_request hello = Some sha256_hello"
    "compute_hex sample_env upper_request hello = Some sha256_hello"
    by (simp_all add: compute_hex_def sample_env_def upper_request_def sample_request_def)
  have d: "req_hash upper_request \<noteq> sha256_hello" "req_hash sample_request = sha256_hello"
    by (simp_all add: sha256_hello_def upper_request_def sample_request_def)
  have s: "same_hex (req_hash upper_request) sha256_hello"
    by (simp add: same_hex_def lower_hex_def sha256_hello_def upper_request_def)
  have l: "0 < length hello" "length hello < maxSize"
    by (simp_all add: hello_length maxSize_def)
  note t1 = hash_compared_exactly[of sample_env sample_request sha256_hello sample_config
      fresh_world, unfolded sample_decodes, OF h(1) sample_validates(1) sample_node(1) l]
  note t2 = hash_compared_exactly[of sample_env upper_request sha256_hello sample_config
      fresh_world, unfolded sample_decodes, OF h(2) sample_validates(3) sample_node(1) l]
  from t1 t2 h d s show ?thesis by (simp add: sample_decodes)
qed


subsection \<open>The address state\<close>





subsection \<open>Calls one after another\<close>















subsection \<open>Allocations that overlap\<close>









subsection \<open>Responses\<close>



lemma cache_transactions_Inr:
  "cache_transactions en bundles attachedTrytes is w = (Inr u, w') \<Longrightarrow>
     bundleCache w' = bundleCache w
     \<and> trace w' = trace w
         @ map (\<lambda>i. TransactionCacheSet (transaction_item_at bundles attachedTrytes i)) is
     \<and> (\<forall>i \<in> set is.
           transactionCache_set en (transaction_item_at bundles attachedTrytes i) = None
           \<and> transactionCache w' (tx_hash (bundles ! i)) \<noteq> None)
     \<and> (\<forall>k. transactionCache w k \<noteq> None \<longrightarrow> transactionCache w' k \<noteq> None)"
proof (induction "is" arbitrary: w)
  case Nil
  then show ?case by simp
next
  case (Cons i rest)
  let ?item = "transaction_item_at bundles attachedTrytes i"
  let ?w1 = "(emit (TransactionCacheSet ?item) w)
               \<lparr>transactionCache := (transactionCache (emit (TransactionCacheSet ?item) w))
                  (ti_id ?item \<mapsto> ti_trytes ?item)\<rparr>"
  from Cons.prems have ok: "transactionCache_set en ?item = None"
    by (cases "transactionCache_set en ?item") (simp_all add: Let_def)
  with Cons.prems have "cache_transactions en bundles attachedTrytes rest ?w1 = (Inr u, w')"
    by (simp add: Let_def)
  note ih = Cons.IH[OF this]
  have here: "transactionCache ?w1 (tx_hash (bundles ! i)) \<noteq> None"
    by (simp add: transaction_item_at_def emit_def)
  have kept: "\<forall>k. transactionCache w k \<noteq> None \<longrightarrow> transactionCache ?w1 k \<noteq> None"
    by (simp add: emit_def)
  from ih ok here kept show ?case
    by (auto simp: emit_def)
qed

lemma cache_transactions_ok:
  "\<forall>i \<in> set is. transactionCache_set en (transaction_item_at bundles attachedTrytes i) = None
   \<Longrightarrow> \<exists>w'. cache_transactions en bundles attachedTrytes is w = (Inr (), w')"
  by (induction "is" arbitrary: w) (simp_all add: Let_def)

lemma cache_and_respond_Inr:
  assumes "cache_and_respond en bundles ipfsHash w = (Inr response, w')"
  shows "bundles \<noteq> []"
    and "response = \<lparr>success = True, message = ''OK'',
                     transactionHash = Some (tx_hash (hd bundles)), ipfs = ipfsHash\<rparr>"
    and "bundleCache_set en
           \<lparr>bi_id = tx_bundle (hd bundles), transactionHashes = map tx_hash bundles\<rparr> = None"
    and "bundleCache w' (tx_bundle (hd bundles)) = Some (map tx_hash bundles)"
    and "\<forall>i < length bundles.
           transactionCache_set en
             (transaction_item_at bundles (asTransactionTrytes en bundles) i) = None
           \<and> transactionCache w' (tx_hash (bundles ! i)) \<noteq> None"
    and "trace w' = trace w
           @ BundleCacheSet
               \<lparr>bi_id = tx_bundle (hd bundles), transactionHashes = map tx_hash bundles\<rparr>
           # map (\<lambda>i. TransactionCacheSet
                         (transaction_item_at bundles (asTransactionTrytes en bundles) i))
               [0..<length bundles]"
proof -
  let ?item = "\<lparr>bi_id = tx_bundle (hd bundles), transactionHashes = map tx_hash bundles\<rparr>"
  let ?w1 = "(emit (BundleCacheSet ?item) w)
               \<lparr>bundleCache := (bundleCache (emit (BundleCacheSet ?item) w))
                  (bi_id ?item \<mapsto> transactionHashes ?item)\<rparr>"
  from assms show ne: "bundles \<noteq> []"
    by (auto simp: cache_and_respond_def)
  then obtain first others where b: "bundles = first # others"
    by (cases bundles) auto
  from assms b show ok: "bundleCache_set en ?item = None"
    by (cases "bundleCache_set en ?item") (simp_all add: cache_and_respond_def Let_def)
  from assms b ok obtain u where
    c: "cache_transactions en bundles (asTransactionTrytes en bundles) [0..<length bundles] ?w1
          = (Inr u, w')"
    and r: "response = \<lparr>success = True, message = ''OK'',
                     transactionHash = Some (tx_hash first), ipfs = ipfsHash\<rparr>"
    by (auto simp: cache_and_respond_def Let_def split: prod.splits sum.splits)
  from r b show "response = \<lparr>success = True, message = ''OK'',
                     transactionHash = Some (tx_hash (hd bundles)), ipfs = ipfsHash\<rparr>"
    by simp
  note ct = cache_transactions_Inr[OF c]
  from ct show "bundleCache w' (tx_bundle (hd bundles)) = Some (map tx_hash bundles)"
    by (simp add: emit_def)
  from ct show "\<forall>i < length bundles.
           transactionCache_set en
             (transaction_item_at bundles (asTransactionTrytes en bundles) i) = None
           \<and> transactionCache w' (tx_hash (bundles ! i)) \<noteq> None"
    by simp
  from ct show "trace w' = trace w @ BundleCacheSet ?item
           # map (\<lambda>i. TransactionCacheSet
                         (transaction_item_at bundles (asTransactionTrytes en bundles) i))
               [0..<length bundles]"
    by (simp add: emit_def)
qed

lemma ipfsStore_success:
  assumes "success (fst (ipfsStore en config request w))"
  shows "\<exists>buffer w1 ipfsHash w2 cs w3 bundles w4.
           check_request en config request w = (Inr buffer, w1)
         \<and> add_to_ipfs en config buffer w1 = (Inr ipfsHash, w2)
         \<and> allocate_state en w2 = (Inr cs, w3)
         \<and> send_to_tangle en config request ipfsHash cs w3 = (Inr bundles, w4)
         \<and> cache_and_respond en bundles ipfsHash w4
             = (Inr (fst (ipfsStore en config request w)), snd (ipfsStore en config request w))"
  using assms
  by (auto simp: ipfsStore_def ipfsStore_try_def split: prod.splits sum.splits)

lemma ipfsStore_try_Inr:
  assumes "ipfsStore_try en config request w = (Inr response, w')"
  shows "success response \<and> message response = ''OK''"
proof -
  from assms obtain bundles ipfsHash w4 where
    "cache_and_respond en bundles ipfsHash w4 = (Inr response, w')"
    by (auto simp: ipfsStore_try_def split: prod.splits sum.splits)
  from cache_and_respond_Inr(2)[OF this] show ?thesis by simp
qed



lemma cache_and_respond_ok:
  assumes "bundles \<noteq> []"
    and "bundleCache_set en
           \<lparr>bi_id = tx_bundle (hd bundles), transactionHashes = map tx_hash bundles\<rparr> = None"
    and "\<forall>i < length bundles.
           transactionCache_set en
             (transaction_item_at bundles (asTransactionTrytes en bundles) i) = None"
  shows "\<exists>response w'. cache_and_respond en bundles ipfsHash w = (Inr response, w')"
proof -
  from assms(1) obtain first others where b: "bundles = first # others"
    by (cases bundles) auto
  let ?item = "\<lparr>bi_id = tx_bundle first, transactionHashes = map tx_hash bundles\<rparr>"
  let ?w1 = "(emit (BundleCacheSet ?item) w)
               \<lparr>bundleCache := (bundleCache (emit (BundleCacheSet ?item) w))
                  (bi_id ?item \<mapsto> transactionHashes ?item)\<rparr>"
  from assms(3) have "\<forall>i \<in> set [0..<length bundles].
           transactionCache_set en
             (transaction_item_at bundles (asTransactionTrytes en bundles) i) = None"
    by simp
  from cache_transactions_ok[OF this, of ?w1] obtain w' where
    "cache_transactions en bundles (asTransactionTrytes en bundles) [0..<length bundles] ?w1
       = (Inr (), w')"
    by blast
  with assms(2) b show ?thesis
    by (simp add: cache_and_respond_def Let_def)
qed




text \<open>
  Claim C9. A response with \<open>success = True\<close> comes from a run in which the node returned
  a bundle with at least one transaction. The response carries the hash of the first
  transaction of the bundle and the path that the add to IPFS returned last; the bundle
  cache holds the hashes of all transactions, in order, under the bundle hash of the first;
  the transaction cache holds an entry under the hash of each transaction; and the last
  calls of the run are the write of the bundle followed by one write per transaction, in
  order. Conversely, when the node has returned such a bundle and the cache writes
  succeed, the response is a success.
\<close>

theorem success_carries_first_record:
  "(success (fst (ipfsStore en config request w)) \<longrightarrow>
      (\<exists>buffer w1 ipfsHash w2 cs w3 bundles w4.
          check_request en config request w = (Inr buffer, w1)
        \<and> add_to_ipfs en config buffer w1 = (Inr ipfsHash, w2)
        \<and> allocate_state en w2 = (Inr cs, w3)
        \<and> send_to_tangle en config request ipfsHash cs w3 = (Inr bundles, w4)
        \<and> bundles \<noteq> []
        \<and> fst (ipfsStore en config request w)
            = \<lparr>success = True, message = ''OK'',
               transactionHash = Some (tx_hash (hd bundles)), ipfs = ipfsHash\<rparr>
        \<and> bundleCache (snd (ipfsStore en config request w)) (tx_bundle (hd bundles))
            = Some (map tx_hash bundles)
        \<and> (\<forall>i < length bundles.
              transactionCache (snd (ipfsStore en config request w)) (tx_hash (bundles ! i))
                \<noteq> None)
        \<and> trace (snd (ipfsStore en config request w))
            = trace w4
              @ BundleCacheSet
                  \<lparr>bi_id = tx_bundle (hd bundles), transactionHashes = map tx_hash bundles\<rparr>
              # map (\<lambda>i. TransactionCacheSet
                            \<lparr>ti_id = tx_hash (bundles ! i),
                             ti_trytes = nth_opt (asTransactionTrytes en bundles) i\<rparr>)
                  [0..<length bundles]))
   \<and> (\<forall>buffer w1 ipfsHash w2 cs w3 bundles w4.
          check_request en config request w = (Inr buffer, w1)
        \<and> add_to_ipfs en config buffer w1 = (Inr ipfsHash, w2)
        \<and> allocate_state en w2 = (Inr cs, w3)
        \<and> send_to_tangle en config request ipfsHash cs w3 = (Inr bundles, w4)
        \<and> bundles \<noteq> []
        \<and> bundleCache_set en
             \<lparr>bi_id = tx_bundle (hd bundles), transactionHashes = map tx_hash bundles\<rparr> = None
        \<and> (\<forall>i < length bundles.
              transactionCache_set en
                \<lparr>ti_id = tx_hash (bundles ! i),
                 ti_trytes = nth_opt (asTransactionTrytes en bundles) i\<rparr> = None)
        \<longrightarrow> success (fst (ipfsStore en config request w)))"
proof -
  let ?r = "ipfsStore en config request w"
  have a: "success (fst ?r) \<longrightarrow>
      (\<exists>buffer w1 ipfsHash w2 cs w3 bundles w4.
          check_request en config request w = (Inr buffer, w1)
        \<and> add_to_ipfs en config buffer w1 = (Inr ipfsHash, w2)
        \<and> allocate_state en w2 = (Inr cs, w3)
        \<and> send_to_tangle en config request ipfsHash cs w3 = (Inr bundles, w4)
        \<and> bundles \<noteq> []
        \<and> fst ?r = \<lparr>success = True, message = ''OK'',
               transactionHash = Some (tx_hash (hd bundles)), ipfs = ipfsHash\<rparr>
        \<and> bundleCache (snd ?r) (tx_bundle (hd bundles)) = Some (map tx_hash bundles)
        \<and> (\<forall>i < length bundles. transactionCache (snd ?r) (tx_hash (bundles ! i)) \<noteq> None)
        \<and> trace (snd ?r)
            = trace w4
              @ BundleCacheSet
                  \<lparr>bi_id = tx_bundle (hd bundles), transactionHashes = map tx_hash bundles\<rparr>
              # map (\<lambda>i. TransactionCacheSet
                            \<lparr>ti_id = tx_hash (bundles ! i),
                             ti_trytes = nth_opt (asTransactionTrytes en bundles) i\<rparr>)
                  [0..<length bundles])"
  proof
    assume "success (fst ?r)"
    from ipfsStore_success[OF this] obtain buffer w1 ipfsHash w2 cs w3 bundles w4 where
      c: "check_request en config request w = (Inr buffer, w1)"
        "add_to_ipfs en config buffer w1 = (Inr ipfsHash, w2)"
        "allocate_state en w2 = (Inr cs, w3)"
        "send_to_tangle en config request ipfsHash cs w3 = (Inr bundles, w4)"
      and g: "cache_and_respond en bundles ipfsHash w4 = (Inr (fst ?r), snd ?r)"
      by blast
    note g' = cache_and_respond_Inr[OF g]
    from g'(5) have tc: "\<forall>i < length bundles.
        transactionCache (snd ?r) (tx_hash (bundles ! i)) \<noteq> None"
      by simp
    from c g'(1,2,4,6) tc show "\<exists>buffer w1 ipfsHash w2 cs w3 bundles w4.
          check_request en config request w = (Inr buffer, w1)
        \<and> add_to_ipfs en config buffer w1 = (Inr ipfsHash, w2)
        \<and> allocate_state en w2 = (Inr cs, w3)
        \<and> send_to_tangle en config request ipfsHash cs w3 = (Inr bundles, w4)
        \<and> bundles \<noteq> []
        \<and> fst ?r = \<lparr>success = True, message = ''OK'',
               transactionHash = Some (tx_hash (hd bundles)), ipfs = ipfsHash\<rparr>
        \<and> bundleCache (snd ?r) (tx_bundle (hd bundles)) = Some (map tx_hash bundles)
        \<and> (\<forall>i < length bundles. transactionCache (snd ?r) (tx_hash (bundles ! i)) \<noteq> None)
        \<and> trace (snd ?r)
            = trace w4
              @ BundleCacheSet
                  \<lparr>bi_id = tx_bundle (hd bundles), transactionHashes = map tx_hash bundles\<rparr>
              # map (\<lambda>i. TransactionCacheSet
                            \<lparr>ti_id = tx_hash (bundles ! i),
                             ti_trytes = nth_opt (asTransactionTrytes en bundles) i\<rparr>)
                  [0..<length bundles]"
      by (intro exI[of _ buffer] exI[of _ w1] exI[of _ ipfsHash] exI[of _ w2] exI[of _ cs]
            exI[of _ w3] exI[of _ bundles] exI[of _ w4])
         (simp add: transaction_item_at_def)
  qed
  have b: "\<forall>buffer w1 ipfsHash w2 cs w3 bundles w4.
          check_request en config request w = (Inr buffer, w1)
        \<and> add_to_ipfs en config buffer w1 = (Inr ipfsHash, w2)
        \<and> allocate_state en w2 = (Inr cs, w3)
        \<and> send_to_tangle en config request ipfsHash cs w3 = (Inr bundles, w4)
        \<and> bundles \<noteq> []
        \<and> bundleCache_set en
             \<lparr>bi_id = tx_bundle (hd bundles), transactionHashes = map tx_hash bundles\<rparr> = None
        \<and> (\<forall>i < length bundles.
              transactionCache_set en
                \<lparr>ti_id = tx_hash (bundles ! i),
                 ti_trytes = nth_opt (asTransactionTrytes en bundles) i\<rparr> = None)
        \<longrightarrow> success (fst ?r)"
  proof (intro allI impI, elim conjE)
    fix buffer w1 ipfsHash w2 cs w3 bundles w4
    assume c: "check_request en config request w = (Inr buffer, w1)"
        "add_to_ipfs en config buffer w1 = (Inr ipfsHash, w2)"
        "allocate_state en w2 = (Inr cs, w3)"
        "send_to_tangle en config request ipfsHash cs w3 = (Inr bundles, w4)"
      and ne: "bundles \<noteq> []"
      and bc: "bundleCache_set en
             \<lparr>bi_id = tx_bundle (hd bundles), transactionHashes = map tx_hash bundles\<rparr> = None"
      and tc: "\<forall>i < length bundles.
              transactionCache_set en
                \<lparr>ti_id = tx_hash (bundles ! i),
                 ti_trytes = nth_opt (asTransactionTrytes en bundles) i\<rparr> = None"
    from tc have "\<forall>i < length bundles.
           transactionCache_set en
             (transaction_item_at bundles (asTransactionTrytes en bundles) i) = None"
      by (simp add: transaction_item_at_def)
    from cache_and_respond_ok[OF ne bc this, of ipfsHash w4] obtain response w' where
      k: "cache_and_respond en bundles ipfsHash w4 = (Inr response, w')"
      by blast
    with c have "ipfsStore_try en config request w = (Inr response, w')"
      by (simp add: ipfsStore_try_def)
    with ipfsStore_try_Inr[OF this] show "success (fst ?r)"
      by (simp add: ipfsStore_def)
  qed
  from a b show ?thesis by (rule conjI)
qed

text \<open>The sample request: one transaction, cached under its hash and under its bundle.\<close>

theorem success_carries_first_record_witness:
  "success (fst (ipfsStore sample_env sample_config sample_request fresh_world))
   \<and> transactionHash (fst (ipfsStore sample_env sample_config sample_request fresh_world))
       = Some ''TXHASH''
   \<and> ipfs (fst (ipfsStore sample_env sample_config sample_request fresh_world))
       = Some ''QmHello''
   \<and> bundleCache (snd (ipfsStore sample_env sample_config sample_request fresh_world))
       ''BUNDLE'' = Some [''TXHASH'']
   \<and> transactionCache (snd (ipfsStore sample_env sample_config sample_request fresh_world))
       ''TXHASH'' \<noteq> None"
proof -
  let ?r = "ipfsStore sample_env sample_config sample_request fresh_world"
  have s: "success (fst ?r)"
    by (simp add: sample_run)
  from conjunct1[OF success_carries_first_record[of sample_env sample_config sample_request
        fresh_world]] s
  obtain buffer w1 ipfsHash w2 cs w3 bundles w4 where
    c: "check_request sample_env sample_config sample_request fresh_world = (Inr buffer, w1)"
      "add_to_ipfs sample_env sample_config buffer w1 = (Inr ipfsHash, w2)"
      "send_to_tangle sample_env sample_config sample_request ipfsHash cs w3 = (Inr bundles, w4)"
    and r: "fst ?r = \<lparr>success = True, message = ''OK'',
               transactionHash = Some (tx_hash (hd bundles)), ipfs = ipfsHash\<rparr>"
      "bundleCache (snd ?r) (tx_bundle (hd bundles)) = Some (map tx_hash bundles)"
      "\<forall>i < length bundles. transactionCache (snd ?r) (tx_hash (bundles ! i)) \<noteq> None"
    by blast
  from c(1) have "buffer = hello" by (simp add: sample_check)
  with c(2) have i: "ipfsHash = Some ''QmHello''"
    by (simp add: sample_add[OF sample_env_fields(1) refl])
  from c(3) have b: "bundles = [sample_transaction]" by (simp add: sample_send)
  from r(3) b have "transactionCache (snd ?r) ''TXHASH'' \<noteq> None"
    by (simp add: sample_transaction_def)
  with s r(1,2) i b show ?thesis
    by (simp add: sample_transaction_def)
qed

end
